theory Spec2Isabelle
  imports Complex_Main
begin

section \<open>CarouselImage: layout sizing and scroll-driven banner animation\<close>

text \<open>
  A shallow embedding of \<^verbatim>\<open>src/lib/CarouselImage.tsx\<close>. The component keeps the measured
  container width and the derived item width in its state, recomputes the item width in
  \<^verbatim>\<open>onLayout\<close>, forwards scroll offsets to an animated value in \<^verbatim>\<open>onScroll\<close>, and
  \<^verbatim>\<open>render\<close> builds the element tree from props and state.

  JavaScript numbers are modelled as \<^typ>\<open>real\<close>: the finite numbers, with exact
  arithmetic. \<^verbatim>\<open>NaN\<close> and the infinities are not values of the model; the one operation
  of the component that can produce them from finite operands, the division in
  \<^verbatim>\<open>onLayout\<close>, is written out with its zero-divisor case.
\<close>

subsection \<open>Data model\<close>

type_synonym number = real

text \<open>
  The configuration object handed to \<^verbatim>\<open>interpolate\<close>: the component always writes its
  two ranges as two-element arrays, here pairs, and its easing as
  \<^verbatim>\<open>Easing.bezier(x1, y1, x2, y2)\<close>.
\<close>

datatype Easing = Bezier number number number number

record InterpolationConfig =
  inputRange :: "number \<times> number"
  outputRange :: "number \<times> number"
  easing :: Easing

text \<open>Style objects: property names with their values, in the order they are written.\<close>

datatype styleValue =
    Num number
  | Str string
  | Interpolation InterpolationConfig
  | Transform "(string \<times> InterpolationConfig) list"

type_synonym style = "(string \<times> styleValue) list"

text \<open>
  \<^verbatim>\<open>ImageProps\<close> comes from the UI library; the component only spreads it into the
  element and reads its optional \<^verbatim>\<open>style\<close>. The field \<^verbatim>\<open>image\<close> of an item and the
  prop \<^verbatim>\<open>image\<close> of the component are \<open>image_item\<close> and \<open>image_banner\<close> here.
\<close>

record ImageProps =
  source :: string
  style :: "style option"

record CarouselImageItem =
  key :: string
  image_item :: ImageProps

text \<open>Rendered content of \<^verbatim>\<open>renderContent\<close> is opaque to the component.\<close>

type_synonym JSXElement = string

record CarouselImageProps =
  data :: "CarouselImageItem list"
  numColumns :: number
  gap :: "number option"
  image_banner :: "ImageProps option"
  rounded :: "bool option"
  renderContent :: "(CarouselImageItem \<Rightarrow> JSXElement option) option"

record CarouselImageState =
  width :: number
  itemWidth :: number

text \<open>The theme record returned by \<^verbatim>\<open>getTheme()\<close>; only three of its tokens are read.\<close>

record Theme =
  paddingSmall :: number
  colorLine :: string
  lineWidth :: number

definition GAP_DEFAULT :: number where
  "GAP_DEFAULT = 6"

text \<open>
  Truthiness of a finite number: every number but zero. It decides
  \<^verbatim>\<open>this.props.gap || GAP_DEFAULT\<close> and the \<^verbatim>\<open>this.state.itemWidth ? ... : null\<close> guards.
\<close>

definition truthy :: "number \<Rightarrow> bool" where
  "truthy x = (x \<noteq> 0)"

text \<open>\<^verbatim>\<open>this.props.gap || GAP_DEFAULT\<close>: an absent gap and a falsy one both give the default.\<close>

definition gapOrDefault :: "CarouselImageProps \<Rightarrow> number" where
  "gapOrDefault props =
     (case gap props of
        None \<Rightarrow> GAP_DEFAULT
      | Some g \<Rightarrow> if truthy g then g else GAP_DEFAULT)"

text \<open>\<^verbatim>\<open>Math.round\<close>: the nearest integer, a tie going up.\<close>

definition Math_round :: "number \<Rightarrow> number" where
  "Math_round x = of_int \<lfloor>x + 1 / 2\<rfloor>"

subsection \<open>State and handlers\<close>

text \<open>
  The state a new instance starts with; \<^verbatim>\<open>Dimensions.get('window').width\<close> is read from
  the platform and is a parameter here. Nothing in the class inspects the props when an
  instance is created.
\<close>

definition initialState :: "number \<Rightarrow> CarouselImageProps \<Rightarrow> CarouselImageState" where
  "initialState windowWidth props = \<lparr>width = windowWidth, itemWidth = 0\<rparr>"

text \<open>
  Creating an instance evaluates the two field initialisers and nothing else. A failure
  to construct would be a value \<open>Inl\<close> of the result; the class has no such path.
\<close>

datatype error = ConfigurationError

definition construct :: "number \<Rightarrow> CarouselImageProps \<Rightarrow> error + CarouselImageState" where
  "construct windowWidth props = Inr (initialState windowWidth props)"

text \<open>
  \<^verbatim>\<open>onLayout\<close> stores the reported width and the item width derived from it. The divisor
  \<^verbatim>\<open>numColumns + 0.25\<close> is zero exactly for \<^verbatim>\<open>numColumns = -0.25\<close>, where JavaScript
  yields an infinity or \<^verbatim>\<open>NaN\<close>: \<open>None\<close> stands for that non-finite item width.
\<close>

definition onLayout :: "CarouselImageProps \<Rightarrow> number \<Rightarrow> CarouselImageState \<Rightarrow> CarouselImageState option" where
  "onLayout props w state =
     (if numColumns props + 0.25 = 0 then None
      else Some (state\<lparr>width := w,
                       itemWidth := Math_round ((w - numColumns props * gapOrDefault props)
                                                / (numColumns props + 0.25))\<rparr>))"




subsection \<open>The rendered tree\<close>

text \<open>
  An image element: the props spread into it and its \<^verbatim>\<open>style\<close> array, whose entries may
  be \<^verbatim>\<open>undefined\<close>. A tile is the touchable wrapper of one item with the view and the
  image inside it; \<open>pressItem\<close> is the item its press handler hands to
  \<^verbatim>\<open>props.onPress\<close>.
\<close>

record ImageElement =
  spread :: ImageProps
  styles :: "style option list"

record TileElement =
  tileKey :: string
  touchStyle :: style
  activeOpacity :: number
  pressItem :: CarouselImageItem
  viewStyle :: style
  tileImage :: ImageElement
  tileContent :: "JSXElement option"

datatype child = Spacer string style | Tile TileElement

record CarouselElement =
  gapProp :: number
  children :: "child list"

record Rendered =
  containerStyle :: style
  banner :: "ImageElement option"
  carousel :: "CarouselElement option"

text \<open>The static style sheet.\<close>

definition styles_containner :: style where
  "styles_containner = [(''width'', Str ''100%'')]"

definition styles_image :: style where
  "styles_image = [(''position'', Str ''absolute''), (''left'', Num 0), (''top'', Num 0)]"

text \<open>Decimal digits of a length, for the template string of the trailing spacer's key.\<close>

fun decimal :: "nat \<Rightarrow> string" where
  "decimal n =
     (if n < 10 then [char_of (48 + n)]
      else decimal (n div 10) @ [char_of (48 + n mod 10)])"

declare decimal.simps [simp del]

text \<open>The two interpolations of the banner, as \<^verbatim>\<open>render\<close> configures them.\<close>

definition opacityInterpolation :: "number \<Rightarrow> InterpolationConfig" where
  "opacityInterpolation iw =
     \<lparr>inputRange = (0, iw * 2), outputRange = (1, 0.05), easing = Bezier 0 0 0.58 1\<rparr>"

definition translateXInterpolation :: "number \<Rightarrow> InterpolationConfig" where
  "translateXInterpolation iw =
     \<lparr>inputRange = (0, iw * 2), outputRange = (0, - (iw * 0.25)), easing = Bezier 0 0 0.58 1\<rparr>"

definition renderBanner :: "CarouselImageProps \<Rightarrow> CarouselImageState \<Rightarrow> ImageElement option" where
  "renderBanner props state =
     (case image_banner props of
        None \<Rightarrow> None
      | Some img \<Rightarrow>
          if truthy (itemWidth state) then
            Some \<lparr>spread = img,
                  styles =
                    [style img,
                     Some styles_image,
                     Some [(''height'', Str ''100%''),
                           (''resizeMode'', Str ''contain''),
                           (''width'', Num (itemWidth state * 2)),
                           (''opacity'', Interpolation (opacityInterpolation (itemWidth state))),
                           (''transform'',
                              Transform [(''translateX'',
                                          translateXInterpolation (itemWidth state))])]]\<rparr>
          else None)"

definition renderItem :: "Theme \<Rightarrow> CarouselImageProps \<Rightarrow> CarouselImageState \<Rightarrow> CarouselImageItem \<Rightarrow> child" where
  "renderItem theme props state item =
     Tile \<lparr>tileKey = key item,
           touchStyle = [(''flex'', Num 1)],
           activeOpacity = 0.7,
           pressItem = item,
           viewStyle = [(''width'', Num (itemWidth state)),
                        (''flexDirection'', Str ''column''),
                        (''alignItems'', Str ''center''),
                        (''justifyContent'', Str ''center'')],
           tileImage =
             \<lparr>spread = image_item item,
              styles =
                [style (image_item item),
                 Some [(''width'', Num (itemWidth state)),
                       (''height'', Num (itemWidth state)),
                       (''marginBottom'', Num (paddingSmall theme))],
                 if rounded props = Some True
                 then Some [(''borderRadius'', Num (itemWidth state / 2)),
                            (''borderColor'', Str (colorLine theme)),
                            (''borderWidth'', Num (lineWidth theme))]
                 else None]\<rparr>,
           tileContent =
             (case renderContent props of None \<Rightarrow> None | Some f \<Rightarrow> f item)\<rparr>"

text \<open>
  The children of the carousel, in order: the leading spacer when there is a banner image,
  one tile per item, the trailing spacer. A \<^verbatim>\<open>null\<close> child is no child.
\<close>

definition renderCarousel :: "Theme \<Rightarrow> CarouselImageProps \<Rightarrow> CarouselImageState \<Rightarrow> CarouselElement option" where
  "renderCarousel theme props state =
     (if truthy (itemWidth state) then
        Some \<lparr>gapProp = gapOrDefault props,
              children =
                (case image_banner props of
                   None \<Rightarrow> []
                 | Some img \<Rightarrow> [Spacer ''__-1'' [(''width'', Num (itemWidth state * 2))]])
                @ map (renderItem theme props state) (data props)
                @ (if truthy (itemWidth state)
                   then [Spacer (''_'' @ decimal (length (data props)))
                                [(''width'', Num (itemWidth state))]]
                   else [])\<rparr>
      else None)"

definition render :: "Theme \<Rightarrow> CarouselImageProps \<Rightarrow> CarouselImageState \<Rightarrow> Rendered" where
  "render theme props state =
     \<lparr>containerStyle = styles_containner,
      banner = renderBanner props state,
      carousel = renderCarousel theme props state\<rparr>"

text \<open>
  A style array is read left to right, a later entry overriding an earlier one and an
  \<^verbatim>\<open>undefined\<close> entry contributing nothing: the value a property ends up with is the one
  of the last entry that sets it.
\<close>

fun styleLookup :: "style option list \<Rightarrow> string \<Rightarrow> styleValue option" where
  "styleLookup [] name = None"
| "styleLookup (None # rest) name = styleLookup rest name"
| "styleLookup (Some st # rest) name =
     (case styleLookup rest name of
        Some v \<Rightarrow> Some v
      | None \<Rightarrow> map_of st name)"

text \<open>The tiles among the children of a carousel.\<close>

fun tilesOf :: "child list \<Rightarrow> TileElement list" where
  "tilesOf [] = []"
| "tilesOf (Spacer k st # cs) = tilesOf cs"
| "tilesOf (Tile t # cs) = t # tilesOf cs"

subsection \<open>The scroll-to-animation mapping\<close>

record AnimationSample =
  opacity :: number
  translateX :: number

text \<open>
  The interpolation of an animated value and the easing curve are functions of the UI
  library (\<^verbatim>\<open>Animated.Value.interpolate\<close>, \<^verbatim>\<open>Easing.bezier\<close>), which the component
  imports and configures but does not contain. The definitions of this subsection follow
  the specification's description of them.
\<close>

text \<open>
  Modelled from the spec: \<^verbatim>\<open>Easing.bezier\<close> is missing. A coordinate of the cubic Bezier
  curve through the control points (0,0), (x1,y1), (x2,y2), (1,1), at the curve
  parameter \<open>t\<close>; \<open>c1\<close> and \<open>c2\<close> are the coordinates of the two inner control points.
\<close>

definition bezierCoordinate :: "number \<Rightarrow> number \<Rightarrow> number \<Rightarrow> number" where
  "bezierCoordinate c1 c2 t = 3 * (1 - t)\<^sup>2 * t * c1 + 3 * (1 - t) * t\<^sup>2 * c2 + t ^ 3"

text \<open>
  Modelled from the spec: \<^verbatim>\<open>Easing.bezier\<close> is missing. The curve parameter in the unit
  interval at which the curve's x is the progress \<open>p\<close>.
\<close>

definition bezierParameter :: "number \<Rightarrow> number \<Rightarrow> number \<Rightarrow> number" where
  "bezierParameter x1 x2 p = (THE t. 0 \<le> t \<and> t \<le> 1 \<and> bezierCoordinate x1 x2 t = p)"

text \<open>
  Modelled from the spec: \<^verbatim>\<open>Easing.bezier\<close> is missing. The eased progress is the
  curve's y at the parameter where its x is the progress.
\<close>

fun applyEasing :: "Easing \<Rightarrow> number \<Rightarrow> number" where
  "applyEasing (Bezier x1 y1 x2 y2) p = bezierCoordinate y1 y2 (bezierParameter x1 x2 p)"

text \<open>
  Modelled from the spec: \<^verbatim>\<open>Animated.Value.interpolate\<close> is missing. The offset is clamped
  to the domain and the progress is \<open>p = offset / domain.max\<close>, 0 when \<open>domain.max = 0\<close>.
\<close>

definition progress :: "number \<times> number \<Rightarrow> number \<Rightarrow> number" where
  "progress domain offset =
     (if snd domain = 0 then 0
      else max (fst domain) (min (snd domain) offset) / snd domain)"

text \<open>
  Modelled from the spec: \<^verbatim>\<open>Animated.Value.interpolate\<close> is missing. The output moves from
  \<open>a\<close> to \<open>b\<close> with the eased progress.
\<close>

definition lerp_with_easing :: "Easing \<Rightarrow> number \<Rightarrow> number \<Rightarrow> number \<Rightarrow> number" where
  "lerp_with_easing e a b p = a + (b - a) * applyEasing e p"

text \<open>
  Modelled from the spec: \<^verbatim>\<open>Animated.Value.interpolate\<close> is missing. The value of a
  two-point interpolation at an offset.
\<close>

definition interpolate :: "InterpolationConfig \<Rightarrow> number \<Rightarrow> number" where
  "interpolate cfg offset =
     lerp_with_easing (easing cfg) (fst (outputRange cfg)) (snd (outputRange cfg))
       (progress (inputRange cfg) offset)"

text \<open>
  The sample the banner shows for an offset: the values of the two interpolations that
  \<^verbatim>\<open>render\<close> configures for an item width.
\<close>

definition mapScrollOffset :: "number \<Rightarrow> number \<Rightarrow> AnimationSample" where
  "mapScrollOffset offset tileWidth =
     \<lparr>opacity = interpolate (opacityInterpolation tileWidth) offset,
      translateX = interpolate (translateXInterpolation tileWidth) offset\<rparr>"

section \<open>Properties of the easing curve\<close>

text \<open>
  The curve the component configures, \<open>Bezier 0 0 0.58 1\<close>, has
  \<open>x(t) = 1.74 t\<^sup>2 - 0.74 t\<^sup>3\<close> and \<open>y(t) = 3 t\<^sup>2 - 2 t\<^sup>3\<close>. On the unit interval \<open>x\<close> is
  strictly increasing and onto, so the parameter of a progress value exists and is
  unique, and \<open>y\<close> is increasing.
\<close>

lemma bezierX_poly: "bezierCoordinate 0 0.58 t = 1.74 * t\<^sup>2 - 0.74 * t ^ 3"
  by (simp add: bezierCoordinate_def power2_eq_square power3_eq_cube algebra_simps)

lemma bezierY_poly: "bezierCoordinate 0 1 t = 3 * t\<^sup>2 - 2 * t ^ 3"
  by (simp add: bezierCoordinate_def power2_eq_square power3_eq_cube algebra_simps)

lemma cubic_difference:
  "(a * t\<^sup>2 - b * t ^ 3) - (a * s\<^sup>2 - b * s ^ 3)
   = (t - s) * (a * (t + s) - b * (t\<^sup>2 + t * s + s\<^sup>2))" for a b s t :: real
  by (simp add: power2_eq_square power3_eq_cube algebra_simps)

lemma unit_bounds:
  assumes "0 \<le> s" "s \<le> t" "t \<le> (1::real)"
  shows "t\<^sup>2 + t * s + s\<^sup>2 \<le> t + 2 * s"
proof -
  have "t\<^sup>2 \<le> t" using assms by (simp add: power2_eq_square mult_left_le)
  moreover have "s\<^sup>2 \<le> s" using assms by (simp add: power2_eq_square mult_left_le)
  moreover have "t * s \<le> s" using assms by (simp add: mult_left_le_one_le)
  ultimately show ?thesis by linarith
qed

lemma bezierX_strict_mono:
  assumes "0 \<le> s" "s < t" "t \<le> 1"
  shows "bezierCoordinate 0 0.58 s < bezierCoordinate 0 0.58 t"
proof -
  define w where "w = t\<^sup>2 + t * s + s\<^sup>2"
  have b: "w \<le> t + 2 * s" unfolding w_def using assms by (intro unit_bounds) auto
  have "bezierCoordinate 0 0.58 t - bezierCoordinate 0 0.58 s = (t - s) * (1.74 * (t + s) - 0.74 * w)"
    unfolding bezierX_poly w_def by (rule cubic_difference)
  moreover have "0 < 1.74 * (t + s) - 0.74 * w" using b assms by simp
  moreover have "0 < t - s" using assms by simp
  ultimately have "0 < bezierCoordinate 0 0.58 t - bezierCoordinate 0 0.58 s"
    by (simp add: mult_pos_pos)
  then show ?thesis by simp
qed

lemma bezierY_mono:
  assumes "0 \<le> s" "s \<le> t" "t \<le> 1"
  shows "bezierCoordinate 0 1 s \<le> bezierCoordinate 0 1 t"
proof -
  define w where "w = t\<^sup>2 + t * s + s\<^sup>2"
  have b: "w \<le> t + 2 * s" unfolding w_def using assms by (intro unit_bounds) auto
  have "bezierCoordinate 0 1 t - bezierCoordinate 0 1 s = (t - s) * (3 * (t + s) - 2 * w)"
    unfolding bezierY_poly w_def by (rule cubic_difference)
  moreover have "0 \<le> 3 * (t + s) - 2 * w" using b assms by simp
  moreover have "0 \<le> t - s" using assms by simp
  ultimately have "0 \<le> bezierCoordinate 0 1 t - bezierCoordinate 0 1 s"
    by simp
  then show ?thesis by simp
qed

lemma bezierX_exists:
  assumes "0 \<le> p" "p \<le> 1"
  shows "\<exists>t. 0 \<le> t \<and> t \<le> 1 \<and> bezierCoordinate 0 0.58 t = p"
proof -
  have c: "continuous_on {0..1} (bezierCoordinate 0 0.58)"
    unfolding bezierCoordinate_def by (intro continuous_intros)
  have "bezierCoordinate 0 0.58 0 \<le> p" "p \<le> bezierCoordinate 0 0.58 1"
    using assms by (simp_all add: bezierCoordinate_def)
  from IVT'[OF this _ c] show ?thesis by auto
qed

lemma bezierX_unique:
  assumes "0 \<le> s" "s \<le> 1" "0 \<le> t" "t \<le> 1"
    and "bezierCoordinate 0 0.58 s = bezierCoordinate 0 0.58 t"
  shows "s = t"
proof (rule ccontr)
  assume "s \<noteq> t"
  then consider "s < t" | "t < s" by linarith
  then show False
  proof cases
    case 1
    from bezierX_strict_mono[OF assms(1) 1 assms(4)] assms(5) show False by simp
  next
    case 2
    from bezierX_strict_mono[OF assms(3) 2 assms(2)] assms(5) show False by simp
  qed
qed

lemma bezierParameter_eq:
  assumes "0 \<le> t" "t \<le> 1"
  shows "bezierParameter 0 0.58 (bezierCoordinate 0 0.58 t) = t"
  unfolding bezierParameter_def
proof (rule the_equality)
  show "0 \<le> t \<and> t \<le> 1 \<and> bezierCoordinate 0 0.58 t = bezierCoordinate 0 0.58 t"
    using assms by simp
next
  fix u assume "0 \<le> u \<and> u \<le> 1 \<and> bezierCoordinate 0 0.58 u = bezierCoordinate 0 0.58 t"
  then show "u = t" using bezierX_unique assms by blast
qed

lemma bezierParameter_props:
  assumes "0 \<le> p" "p \<le> 1"
  shows "0 \<le> bezierParameter 0 0.58 p \<and> bezierParameter 0 0.58 p \<le> 1
         \<and> bezierCoordinate 0 0.58 (bezierParameter 0 0.58 p) = p"
proof -
  from bezierX_exists[OF assms] obtain t where t: "0 \<le> t" "t \<le> 1" "bezierCoordinate 0 0.58 t = p"
    by blast
  have "bezierParameter 0 0.58 p = t" using bezierParameter_eq[OF t(1,2)] t(3) by simp
  then show ?thesis using t by simp
qed

lemma bezierParameter_mono:
  assumes "0 \<le> p" "p \<le> q" "q \<le> 1"
  shows "bezierParameter 0 0.58 p \<le> bezierParameter 0 0.58 q"
proof (rule ccontr)
  assume n: "\<not> ?thesis"
  have P: "0 \<le> bezierParameter 0 0.58 p \<and> bezierParameter 0 0.58 p \<le> 1
         \<and> bezierCoordinate 0 0.58 (bezierParameter 0 0.58 p) = p"
    using assms by (intro bezierParameter_props) auto
  have Q: "0 \<le> bezierParameter 0 0.58 q \<and> bezierParameter 0 0.58 q \<le> 1
         \<and> bezierCoordinate 0 0.58 (bezierParameter 0 0.58 q) = q"
    using assms by (intro bezierParameter_props) auto
  from n have "bezierParameter 0 0.58 q < bezierParameter 0 0.58 p" by simp
  with P Q have "q < p" using bezierX_strict_mono by metis
  with assms show False by simp
qed

lemma easing_at_0: "applyEasing (Bezier 0 0 0.58 1) 0 = 0"
proof -
  have "bezierParameter 0 0.58 (bezierCoordinate 0 0.58 0) = 0"
    by (rule bezierParameter_eq) simp_all
  then have "bezierParameter 0 0.58 0 = 0" by (simp add: bezierCoordinate_def)
  then show ?thesis by (simp add: bezierCoordinate_def)
qed

lemma easing_at_1: "applyEasing (Bezier 0 0 0.58 1) 1 = 1"
proof -
  have "bezierParameter 0 0.58 (bezierCoordinate 0 0.58 1) = 1"
    by (rule bezierParameter_eq) simp_all
  then have "bezierParameter 0 0.58 1 = 1" by (simp add: bezierCoordinate_def)
  then show ?thesis by (simp add: bezierCoordinate_def)
qed

lemma easing_mono:
  assumes "0 \<le> p" "p \<le> q" "q \<le> 1"
  shows "applyEasing (Bezier 0 0 0.58 1) p \<le> applyEasing (Bezier 0 0 0.58 1) q"
proof -
  have "0 \<le> bezierParameter 0 0.58 p" using bezierParameter_props[of p] assms by simp
  moreover have "bezierParameter 0 0.58 q \<le> 1" using bezierParameter_props[of q] assms by simp
  moreover note bezierParameter_mono[OF assms]
  ultimately show ?thesis by (simp add: bezierY_mono)
qed

section \<open>Layout: the item width\<close>

lemma Math_round_eq_round: "Math_round x = of_int (round x)"
  by (simp add: Math_round_def round_def)

lemma Math_round_mono: "x \<le> y \<Longrightarrow> Math_round x \<le> Math_round y"
  by (simp add: Math_round_def floor_mono)

lemma onLayout_positive_columns:
  assumes "0 < numColumns props"
  shows "onLayout props w state =
         Some \<lparr>width = w,
               itemWidth = Math_round ((w - numColumns props * gapOrDefault props)
                                       / (numColumns props + 0.25))\<rparr>"
  using assms by (simp add: onLayout_def)

lemma gapOrDefault_positive: "gap props = Some g \<Longrightarrow> 0 < g \<Longrightarrow> gapOrDefault props = g"
  by (simp add: gapOrDefault_def truthy_def)

lemma onLayout_itemWidth_antimono:
  assumes "0 < numColumns props" and "gapOrDefault props \<le> gapOrDefault props'"
    and "numColumns props' = numColumns props"
  shows "\<exists>a b. onLayout props w state = Some a \<and> onLayout props' w state = Some b
               \<and> itemWidth b \<le> itemWidth a"
proof -
  let ?n = "numColumns props"
  have "?n * gapOrDefault props \<le> ?n * gapOrDefault props'"
    using assms by (simp add: mult_left_mono)
  then have "w - ?n * gapOrDefault props' \<le> w - ?n * gapOrDefault props" by simp
  moreover have "0 < ?n + 0.25" using assms by simp
  ultimately have "(w - ?n * gapOrDefault props') / (?n + 0.25)
                   \<le> (w - ?n * gapOrDefault props) / (?n + 0.25)"
    by (simp add: divide_right_mono)
  then have "Math_round ((w - ?n * gapOrDefault props') / (?n + 0.25))
             \<le> Math_round ((w - ?n * gapOrDefault props) / (?n + 0.25))"
    by (rule Math_round_mono)
  then show ?thesis
    using onLayout_positive_columns[of props w state] onLayout_positive_columns[of props' w state]
      assms by simp
qed

text \<open>
  For a positive integer column count and a positive gap the handler stores the item
  width of the formula \<open>round((w - n \<times> g) / (n + 0.25))\<close>, where \<open>round\<close> rounds a tie up
  as \<^verbatim>\<open>Math.round\<close> does; for width 300, 3 columns and gap 6 that is 87.
\<close>

lemma onLayout_tile_width_positive_gap:
  assumes "0 < n" and "numColumns props = real n" and "gap props = Some g" and "0 < g"
  shows "onLayout props w state =
           Some \<lparr>width = w,
                 itemWidth = of_int (round ((w - real n * g) / (real n + 0.25)))\<rparr>"
proof -
  have pos: "0 < numColumns props" using assms by simp
  have "gapOrDefault props = g" using assms by (simp add: gapOrDefault_positive)
  then show ?thesis
    using onLayout_positive_columns[OF pos, of w state] assms(2)
    by (simp add: Math_round_eq_round)
qed

lemma onLayout_tile_width_example:
  "onLayout (props\<lparr>numColumns := 3, gap := Some 6\<rparr>) 300 state
     = Some \<lparr>width = 300, itemWidth = 87\<rparr>"
  by (simp add: onLayout_def gapOrDefault_def truthy_def Math_round_def)

text \<open>
  C1. The computed item width is to equal \<open>round((w - n \<times> g) / (n + 0.25))\<close> for every
  gap \<open>g \<ge> 0\<close>. At a supplied gap of 0 the handler does not compute that: for width 300
  and 3 columns it stores 87, while \<open>round((300 - 3 \<times> 0) / (3 + 0.25))\<close> is 92. The
  supplied 0 is falsy in \<^verbatim>\<open>this.props.gap || GAP_DEFAULT\<close> and is discarded for the
  default meant for an absent gap.
\<close>

theorem onLayout_gap_zero_divergence:
  "onLayout \<lparr>data = [], numColumns = 3, gap = Some 0, image_banner = None,
              rounded = None, renderContent = None\<rparr>
            300 \<lparr>width = 400, itemWidth = 0\<rparr>
     = Some \<lparr>width = 300, itemWidth = 87\<rparr>
   \<and> (87 :: real) \<noteq> of_int (round ((300 - 3 * 0) / (3 + 0.25) :: real))"
  by (simp add: onLayout_def gapOrDefault_def truthy_def GAP_DEFAULT_def Math_round_def round_def)

text \<open>
  For a positive integer column count the stored item width does not grow with a positive
  gap.
\<close>

lemma onLayout_positive_gap_monotone:
  assumes "0 < n" and "numColumns props = real n" and "0 < g1" and "g1 \<le> g2"
  shows "\<exists>a b. onLayout (props\<lparr>gap := Some g1\<rparr>) w state = Some a
             \<and> onLayout (props\<lparr>gap := Some g2\<rparr>) w state = Some b
             \<and> itemWidth a \<ge> itemWidth b"
proof -
  have "gapOrDefault (props\<lparr>gap := Some g1\<rparr>) \<le> gapOrDefault (props\<lparr>gap := Some g2\<rparr>)"
    using assms by (simp add: gapOrDefault_positive)
  then show ?thesis
    using assms by (intro onLayout_itemWidth_antimono) simp_all
qed

text \<open>
  C8. The item width computed with gap 0 is to be at least the one computed with any gap
  \<open>g \<ge> 0\<close>. At width 300 and 3 columns the handler stores 87 for a supplied gap of 0 and 91
  for a gap of 1: the supplied 0 is falsy in \<^verbatim>\<open>this.props.gap || GAP_DEFAULT\<close> and the
  width is computed with 6.
\<close>

theorem onLayout_gap_zero_not_widest:
  "onLayout \<lparr>data = [], numColumns = 3, gap = Some 0, image_banner = None,
              rounded = None, renderContent = None\<rparr>
            300 \<lparr>width = 400, itemWidth = 0\<rparr>
     = Some \<lparr>width = 300, itemWidth = 87\<rparr>
   \<and> onLayout \<lparr>data = [], numColumns = 3, gap = Some 1, image_banner = None,
                rounded = None, renderContent = None\<rparr>
              300 \<lparr>width = 400, itemWidth = 0\<rparr>
     = Some \<lparr>width = 300, itemWidth = 91\<rparr>
   \<and> \<not> ((87 :: real) \<ge> 91)"
  by (simp add: onLayout_def gapOrDefault_def truthy_def GAP_DEFAULT_def Math_round_def)

text \<open>
  C9. A supplied gap of 0 is treated like an absent one: \<^verbatim>\<open>onLayout\<close> computes the item
  width with 6, and the carousel is given the gap 6. Every positive supplied gap is used
  as it is, in both places.
\<close>

theorem gap_zero_falls_back_to_default:
  "(numColumns props + 0.25 \<noteq> 0 \<longrightarrow>
      onLayout (props\<lparr>gap := Some 0\<rparr>) w state =
        Some \<lparr>width = w,
              itemWidth = Math_round ((w - numColumns props * 6) / (numColumns props + 0.25))\<rparr>)
   \<and> (itemWidth state \<noteq> 0 \<longrightarrow>
      map_option gapProp (renderCarousel theme (props\<lparr>gap := Some 0\<rparr>) state) = Some 6)
   \<and> (0 < g \<and> numColumns props + 0.25 \<noteq> 0 \<longrightarrow>
      onLayout (props\<lparr>gap := Some g\<rparr>) w state =
        Some \<lparr>width = w,
              itemWidth = Math_round ((w - numColumns props * g) / (numColumns props + 0.25))\<rparr>)
   \<and> (0 < g \<and> itemWidth state \<noteq> 0 \<longrightarrow>
      map_option gapProp (renderCarousel theme (props\<lparr>gap := Some g\<rparr>) state) = Some g)"
  by (simp add: onLayout_def renderCarousel_def gapOrDefault_def truthy_def GAP_DEFAULT_def)

theorem gap_zero_falls_back_to_default_witness:
  "numColumns \<lparr>data = [], numColumns = 3, gap = None, image_banner = None,
               rounded = None, renderContent = None\<rparr> + 0.25 \<noteq> 0
   \<and> itemWidth \<lparr>width = 300, itemWidth = 87\<rparr> \<noteq> 0 \<and> (0::real) < 2
   \<and> onLayout \<lparr>data = [], numColumns = 3, gap = Some 0, image_banner = None,
                rounded = None, renderContent = None\<rparr> 300 \<lparr>width = 300, itemWidth = 87\<rparr>
       = Some \<lparr>width = 300, itemWidth = 87\<rparr>
   \<and> map_option gapProp
        (renderCarousel \<lparr>paddingSmall = 8, colorLine = ''#ccc'', lineWidth = 1\<rparr>
           \<lparr>data = [], numColumns = 3, gap = Some 0, image_banner = None,
              rounded = None, renderContent = None\<rparr> \<lparr>width = 300, itemWidth = 87\<rparr>) = Some 6
   \<and> onLayout \<lparr>data = [], numColumns = 3, gap = Some 2, image_banner = None,
                rounded = None, renderContent = None\<rparr> 300 \<lparr>width = 300, itemWidth = 87\<rparr>
       = Some \<lparr>width = 300, itemWidth = 90\<rparr>
   \<and> map_option gapProp
        (renderCarousel \<lparr>paddingSmall = 8, colorLine = ''#ccc'', lineWidth = 1\<rparr>
           \<lparr>data = [], numColumns = 3, gap = Some 2, image_banner = None,
              rounded = None, renderContent = None\<rparr> \<lparr>width = 300, itemWidth = 87\<rparr>) = Some 2"
  using gap_zero_falls_back_to_default [of "\<lparr>data = [], numColumns = 3, gap = None, image_banner = None,
               rounded = None, renderContent = None\<rparr>" 300 "\<lparr>width = 300, itemWidth = 87\<rparr>"
               "\<lparr>paddingSmall = 8, colorLine = ''#ccc'', lineWidth = 1\<rparr>" 2]
  by (simp add: Math_round_def)

text \<open>
  C2, as stated, at \<open>numColumns = 0\<close> and at \<open>numColumns = 2.5\<close>: an instance is created,
  and the layout handler divides and stores an item width (1200 and 104 for width 300).
\<close>

theorem construct_unvalidated_counterexample:
  "construct 400 \<lparr>data = [], numColumns = 0, gap = None, image_banner = None,
                   rounded = None, renderContent = None\<rparr>
     = Inr \<lparr>width = 400, itemWidth = 0\<rparr>
   \<and> onLayout \<lparr>data = [], numColumns = 0, gap = None, image_banner = None,
                rounded = None, renderContent = None\<rparr> 300 \<lparr>width = 400, itemWidth = 0\<rparr>
     = Some \<lparr>width = 300, itemWidth = 1200\<rparr>
   \<and> construct 400 \<lparr>data = [], numColumns = 5 / 2, gap = None, image_banner = None,
                   rounded = None, renderContent = None\<rparr>
     = Inr \<lparr>width = 400, itemWidth = 0\<rparr>
   \<and> onLayout \<lparr>data = [], numColumns = 5 / 2, gap = None, image_banner = None,
                rounded = None, renderContent = None\<rparr> 300 \<lparr>width = 400, itemWidth = 0\<rparr>
     = Some \<lparr>width = 300, itemWidth = 104\<rparr>"
  by (simp add: construct_def initialState_def onLayout_def gapOrDefault_def GAP_DEFAULT_def
      Math_round_def)

text \<open>
  C2 (amended). No value of \<open>numColumns\<close> is rejected: creating an instance always
  succeeds, and for every \<open>numColumns\<close> other than -0.25, zero, negative and fractional
  values included, the layout handler stores
  \<open>round((w - numColumns \<times> gap) / (numColumns + 0.25))\<close> with \<open>numColumns\<close> as given.
\<close>

theorem construct_never_fails:
  "construct windowWidth props = Inr \<lparr>width = windowWidth, itemWidth = 0\<rparr>
   \<and> (numColumns props \<noteq> - 0.25 \<longrightarrow>
        onLayout props w state =
          Some \<lparr>width = w,
                itemWidth = of_int (round ((w - numColumns props * gapOrDefault props)
                                           / (numColumns props + 0.25)))\<rparr>)"
  by (simp add: construct_def initialState_def onLayout_def Math_round_eq_round
      add_eq_0_iff2)

theorem construct_never_fails_witness:
  "numColumns \<lparr>data = [], numColumns = -2, gap = Some 6, image_banner = None,
               rounded = None, renderContent = None\<rparr> \<noteq> - 0.25
   \<and> construct 400 \<lparr>data = [], numColumns = -2, gap = Some 6, image_banner = None,
               rounded = None, renderContent = None\<rparr> = Inr \<lparr>width = 400, itemWidth = 0\<rparr>
   \<and> onLayout \<lparr>data = [], numColumns = -2, gap = Some 6, image_banner = None,
               rounded = None, renderContent = None\<rparr> 300 \<lparr>width = 400, itemWidth = 0\<rparr>
       = Some \<lparr>width = 300, itemWidth = -178\<rparr>"
  using construct_never_fails [of 400 "\<lparr>data = [], numColumns = -2, gap = Some 6, image_banner = None,
               rounded = None, renderContent = None\<rparr>" 300 "\<lparr>width = 400, itemWidth = 0\<rparr>"]
  by (simp add: round_def gapOrDefault_def truthy_def)

section \<open>Scroll handling and the animation sample\<close>

lemma interpolate_at_domain_min:
  "interpolate \<lparr>inputRange = (0, d), outputRange = (a, b), easing = Bezier 0 0 0.58 1\<rparr> 0 = a"
  if "0 \<le> d"
  using that easing_at_0
  by (simp add: interpolate_def lerp_with_easing_def progress_def del: applyEasing.simps)

lemma interpolate_at_domain_max:
  "interpolate \<lparr>inputRange = (0, d), outputRange = (a, b), easing = Bezier 0 0 0.58 1\<rparr> d = b"
  if "0 < d"
  using that easing_at_1
  by (simp add: interpolate_def lerp_with_easing_def progress_def del: applyEasing.simps)

lemma interpolate_empty_domain:
  "interpolate \<lparr>inputRange = (0, 0), outputRange = (a, b), easing = Bezier 0 0 0.58 1\<rparr> x = a"
  using easing_at_0
  by (simp add: interpolate_def lerp_with_easing_def progress_def del: applyEasing.simps)

lemma progress_in_domain:
  assumes "0 < d" "0 \<le> x" "x \<le> d"
  shows "progress (0, d) x = x / d"
  using assms by (simp add: progress_def)

lemma interpolate_antimono:
  assumes "0 < d" "0 \<le> x1" "x1 \<le> x2" "x2 \<le> d" "b \<le> a"
  shows "interpolate \<lparr>inputRange = (0, d), outputRange = (a, b), easing = Bezier 0 0 0.58 1\<rparr> x2
       \<le> interpolate \<lparr>inputRange = (0, d), outputRange = (a, b), easing = Bezier 0 0 0.58 1\<rparr> x1"
proof -
  let ?e = "applyEasing (Bezier 0 0 0.58 1)"
  have p1: "progress (0, d) x1 = x1 / d" using assms by (intro progress_in_domain) auto
  have p2: "progress (0, d) x2 = x2 / d" using assms by (intro progress_in_domain) auto
  have "0 \<le> x1 / d" "x1 / d \<le> x2 / d" "x2 / d \<le> 1"
    using assms by (simp_all add: divide_right_mono)
  then have "?e (x1 / d) \<le> ?e (x2 / d)" by (rule easing_mono)
  moreover have "b - a \<le> 0" using assms by simp
  ultimately have "(b - a) * ?e (x2 / d) \<le> (b - a) * ?e (x1 / d)"
    by (rule mult_left_mono_neg)
  then show ?thesis
    by (simp add: interpolate_def lerp_with_easing_def p1 p2 del: applyEasing.simps)
qed

lemma mapScrollOffset_at_0:
  "0 \<le> tw \<Longrightarrow> mapScrollOffset 0 tw = \<lparr>opacity = 1, translateX = 0\<rparr>"
  using interpolate_at_domain_min[of "tw * 2"]
  by (simp add: mapScrollOffset_def opacityInterpolation_def translateXInterpolation_def)

lemma mapScrollOffset_at_max:
  "0 < tw \<Longrightarrow> mapScrollOffset (2 * tw) tw = \<lparr>opacity = 0.05, translateX = - (0.25 * tw)\<rparr>"
  using interpolate_at_domain_max[of "tw * 2"]
  by (simp add: mapScrollOffset_def opacityInterpolation_def translateXInterpolation_def
      mult.commute)





text \<open>
  C4. With an item width of 0 the domain is empty: the mapping gives the resting sample
  \<open>{opacity: 1, translateX: 0}\<close> for every offset, its progress being 0 without a
  division; and \<^verbatim>\<open>render\<close> builds no banner, hence no interpolation, in that state.
\<close>

theorem mapScrollOffset_zero_tile_width:
  "mapScrollOffset offset 0 = \<lparr>opacity = 1, translateX = 0\<rparr>
   \<and> progress (inputRange (opacityInterpolation 0)) offset = 0
   \<and> progress (inputRange (translateXInterpolation 0)) offset = 0
   \<and> renderBanner props \<lparr>width = w, itemWidth = 0\<rparr> = None"
  using interpolate_empty_domain
  by (simp add: mapScrollOffset_def opacityInterpolation_def translateXInterpolation_def
      progress_def renderBanner_def truthy_def split: option.split)

text \<open>
  C5. For every positive item width the sample at offset 0 is
  \<open>{opacity: 1, translateX: 0}\<close> and the sample at the end of the domain, offset
  \<open>2 \<times> tileWidth\<close>, is \<open>{opacity: 0.05, translateX: -0.25 \<times> tileWidth}\<close>.
\<close>

theorem mapScrollOffset_endpoints:
  assumes "0 < tileWidth"
  shows "mapScrollOffset 0 tileWidth = \<lparr>opacity = 1, translateX = 0\<rparr>
       \<and> mapScrollOffset (2 * tileWidth) tileWidth
           = \<lparr>opacity = 0.05, translateX = - 0.25 * tileWidth\<rparr>"
  using assms mapScrollOffset_at_0[of tileWidth] mapScrollOffset_at_max[of tileWidth] by simp

theorem mapScrollOffset_endpoints_witness:
  "(0::real) < 87
   \<and> mapScrollOffset 0 87 = \<lparr>opacity = 1, translateX = 0\<rparr>
   \<and> mapScrollOffset 174 87 = \<lparr>opacity = 0.05, translateX = - 21.75\<rparr>"
  using mapScrollOffset_endpoints [of 87] by simp

text \<open>
  C6. For every positive item width and offsets \<open>x1 \<le> x2\<close> within the domain, opacity and
  translateX at \<open>x2\<close> are at most their values at \<open>x1\<close>; both interpolations are
  configured with the same curve, the Bezier through (0,0), (0,0), (0.58,1), (1,1).
\<close>

theorem mapScrollOffset_monotone:
  assumes "0 < tileWidth" and "0 \<le> x1" and "x1 \<le> x2" and "x2 \<le> 2 * tileWidth"
  shows "opacity (mapScrollOffset x2 tileWidth) \<le> opacity (mapScrollOffset x1 tileWidth)
       \<and> translateX (mapScrollOffset x2 tileWidth) \<le> translateX (mapScrollOffset x1 tileWidth)
       \<and> easing (opacityInterpolation tileWidth) = Bezier 0 0 0.58 1
       \<and> easing (translateXInterpolation tileWidth) = Bezier 0 0 0.58 1"
proof (intro conjI)
  have d: "0 < tileWidth * 2" "x2 \<le> tileWidth * 2" using assms by simp_all
  show "opacity (mapScrollOffset x2 tileWidth) \<le> opacity (mapScrollOffset x1 tileWidth)"
    using interpolate_antimono[OF d(1) assms(2,3) d(2), of "0.05" 1]
    by (simp add: mapScrollOffset_def opacityInterpolation_def)
  have "- (tileWidth * 0.25) \<le> 0" using assms by simp
  from interpolate_antimono[OF d(1) assms(2,3) d(2) this]
  show "translateX (mapScrollOffset x2 tileWidth) \<le> translateX (mapScrollOffset x1 tileWidth)"
    by (simp add: mapScrollOffset_def translateXInterpolation_def)
qed (simp_all add: opacityInterpolation_def translateXInterpolation_def)

theorem mapScrollOffset_monotone_witness:
  "(0::real) < 87 \<and> (0::real) \<le> 30 \<and> (30::real) \<le> 87 \<and> (87::real) \<le> 2 * 87
   \<and> opacity (mapScrollOffset 87 87) \<le> opacity (mapScrollOffset 30 87)
   \<and> translateX (mapScrollOffset 87 87) \<le> translateX (mapScrollOffset 30 87)"
  using mapScrollOffset_monotone [of 87 30 87] by simp




section \<open>Rendering\<close>

lemma tilesOf_append: "tilesOf (cs @ ds) = tilesOf cs @ tilesOf ds"
  by (induction cs rule: tilesOf.induct) simp_all

lemma tileKey_renderItems:
  "map tileKey (tilesOf (map (renderItem theme props state) items)) = map key items"
  by (induction items) (simp_all add: renderItem_def)

lemma pressItem_renderItems:
  "map pressItem (tilesOf (map (renderItem theme props state) items)) = items"
  by (induction items) (simp_all add: renderItem_def)

lemma tilesOf_children:
  assumes "renderCarousel theme props state = Some c"
  shows "tilesOf (children c) = tilesOf (map (renderItem theme props state) (data props))"
proof -
  have "children c =
          (case image_banner props of None \<Rightarrow> []
           | Some img \<Rightarrow> [Spacer ''__-1'' [(''width'', Num (itemWidth state * 2))]])
          @ map (renderItem theme props state) (data props)
          @ [Spacer (''_'' @ decimal (length (data props))) [(''width'', Num (itemWidth state))]]"
    using assms by (auto simp: renderCarousel_def split: if_splits)
  then show ?thesis by (simp add: tilesOf_append split: option.split)
qed

lemma tile_of_renderItem:
  "t \<in> set (tilesOf (map (renderItem theme props state) items)) \<Longrightarrow>
   \<exists>item \<in> set items. renderItem theme props state item = Tile t"
  by (induction items) (auto simp: renderItem_def)

lemma styleLookup_later_wins:
  "styleLookup rest name = Some v \<Longrightarrow> styleLookup (e # rest) name = Some v"
  by (cases e) simp_all

lemma renderItem_square:
  assumes "renderItem theme props state item = Tile t"
  shows "styleLookup (styles (tileImage t)) ''width'' = Some (Num (itemWidth state))"
    and "styleLookup (styles (tileImage t)) ''height'' = Some (Num (itemWidth state))"
proof -
  let ?rest = "[Some [(''width'', Num (itemWidth state)),
                      (''height'', Num (itemWidth state)),
                      (''marginBottom'', Num (paddingSmall theme))],
                if rounded props = Some True
                then Some [(''borderRadius'', Num (itemWidth state / 2)),
                           (''borderColor'', Str (colorLine theme)),
                           (''borderWidth'', Num (lineWidth theme))]
                else None]"
  have st: "styles (tileImage t) = style (image_item item) # ?rest"
    using assms by (auto simp: renderItem_def)
  have "styleLookup ?rest ''width'' = Some (Num (itemWidth state))" by simp
  then show "styleLookup (styles (tileImage t)) ''width'' = Some (Num (itemWidth state))"
    unfolding st by (rule styleLookup_later_wins)
  have "styleLookup ?rest ''height'' = Some (Num (itemWidth state))" by simp
  then show "styleLookup (styles (tileImage t)) ''height'' = Some (Num (itemWidth state))"
    unfolding st by (rule styleLookup_later_wins)
qed

text \<open>
  C7. While the item width is 0, as it is in the initial state, \<^verbatim>\<open>render\<close> produces
  neither banner nor carousel. With a positive item width the carousel is rendered, with
  one tile per item in the order of the data, and the banner is rendered exactly when an
  image is configured.
\<close>

theorem render_deferred_until_measured:
  "(itemWidth state = 0 \<longrightarrow>
      banner (render theme props state) = None \<and> carousel (render theme props state) = None)
   \<and> banner (render theme props (initialState windowWidth props)) = None
   \<and> carousel (render theme props (initialState windowWidth props)) = None
   \<and> (0 < itemWidth state \<longrightarrow>
        (\<exists>c. carousel (render theme props state) = Some c
             \<and> map tileKey (tilesOf (children c)) = map key (data props))
        \<and> (banner (render theme props state) \<noteq> None \<longleftrightarrow> image_banner props \<noteq> None))"
proof (intro conjI impI)
  assume z: "itemWidth state = 0"
  show "banner (render theme props state) = None"
    using z by (simp add: render_def renderBanner_def truthy_def split: option.split)
  show "carousel (render theme props state) = None"
    using z by (simp add: render_def renderCarousel_def truthy_def)
next
  show "banner (render theme props (initialState windowWidth props)) = None"
    by (simp add: render_def renderBanner_def truthy_def initialState_def split: option.split)
  show "carousel (render theme props (initialState windowWidth props)) = None"
    by (simp add: render_def renderCarousel_def truthy_def initialState_def)
next
  assume p: "0 < itemWidth state"
  then obtain c where c: "renderCarousel theme props state = Some c"
    by (simp add: renderCarousel_def truthy_def)
  then have "map tileKey (tilesOf (children c)) = map key (data props)"
    by (simp add: tilesOf_children tileKey_renderItems)
  with c show "\<exists>c. carousel (render theme props state) = Some c
             \<and> map tileKey (tilesOf (children c)) = map key (data props)"
    by (simp add: render_def)
  show "banner (render theme props state) \<noteq> None \<longleftrightarrow> image_banner props \<noteq> None"
    using p by (simp add: render_def renderBanner_def truthy_def split: option.split)
qed

theorem render_deferred_until_measured_witness:
  "itemWidth \<lparr>width = 318, itemWidth = 0\<rparr> = 0
   \<and> banner (render \<lparr>paddingSmall = 8, colorLine = ''#ccc'', lineWidth = 1\<rparr>
        \<lparr>data = [\<lparr>key = ''a'', image_item = \<lparr>source = ''a.png'', style = None\<rparr>\<rparr>],
           numColumns = 3, gap = Some 6, image_banner = Some \<lparr>source = ''b.png'', style = None\<rparr>,
           rounded = None, renderContent = None\<rparr>
        \<lparr>width = 318, itemWidth = 0\<rparr>) = None
   \<and> carousel (render \<lparr>paddingSmall = 8, colorLine = ''#ccc'', lineWidth = 1\<rparr>
        \<lparr>data = [\<lparr>key = ''a'', image_item = \<lparr>source = ''a.png'', style = None\<rparr>\<rparr>],
           numColumns = 3, gap = Some 6, image_banner = Some \<lparr>source = ''b.png'', style = None\<rparr>,
           rounded = None, renderContent = None\<rparr>
        \<lparr>width = 318, itemWidth = 0\<rparr>) = None
   \<and> 0 < itemWidth \<lparr>width = 318, itemWidth = 87\<rparr>
   \<and> (\<exists>c. carousel (render \<lparr>paddingSmall = 8, colorLine = ''#ccc'', lineWidth = 1\<rparr>
        \<lparr>data = [\<lparr>key = ''a'', image_item = \<lparr>source = ''a.png'', style = None\<rparr>\<rparr>],
           numColumns = 3, gap = Some 6, image_banner = Some \<lparr>source = ''b.png'', style = None\<rparr>,
           rounded = None, renderContent = None\<rparr>
        \<lparr>width = 318, itemWidth = 87\<rparr>) = Some c
        \<and> map tileKey (tilesOf (children c)) = [''a''])
   \<and> banner (render \<lparr>paddingSmall = 8, colorLine = ''#ccc'', lineWidth = 1\<rparr>
        \<lparr>data = [\<lparr>key = ''a'', image_item = \<lparr>source = ''a.png'', style = None\<rparr>\<rparr>],
           numColumns = 3, gap = Some 6, image_banner = Some \<lparr>source = ''b.png'', style = None\<rparr>,
           rounded = None, renderContent = None\<rparr>
        \<lparr>width = 318, itemWidth = 87\<rparr>) \<noteq> None"
  using
    render_deferred_until_measured [of "\<lparr>width = 318, itemWidth = 0\<rparr>"
        "\<lparr>paddingSmall = 8, colorLine = ''#ccc'', lineWidth = 1\<rparr>"
        "\<lparr>data = [\<lparr>key = ''a'', image_item = \<lparr>source = ''a.png'', style = None\<rparr>\<rparr>],
           numColumns = 3, gap = Some 6, image_banner = Some \<lparr>source = ''b.png'', style = None\<rparr>,
           rounded = None, renderContent = None\<rparr>" 318]
    render_deferred_until_measured [of "\<lparr>width = 318, itemWidth = 87\<rparr>"
        "\<lparr>paddingSmall = 8, colorLine = ''#ccc'', lineWidth = 1\<rparr>"
        "\<lparr>data = [\<lparr>key = ''a'', image_item = \<lparr>source = ''a.png'', style = None\<rparr>\<rparr>],
           numColumns = 3, gap = Some 6, image_banner = Some \<lparr>source = ''b.png'', style = None\<rparr>,
           rounded = None, renderContent = None\<rparr>" 318]
  by simp

text \<open>
  C10. With a positive item width the tiles are those of the items of the data, in order,
  and the image of every tile is square: the width and the height its style array ends up with are both the current
  item width, whatever the item's own style says.
\<close>

theorem tiles_rendered_square:
  assumes "0 < itemWidth state"
  shows "\<exists>c. carousel (render theme props state) = Some c
           \<and> map pressItem (tilesOf (children c)) = data props
           \<and> (\<forall>t \<in> set (tilesOf (children c)).
                styleLookup (styles (tileImage t)) ''width'' = Some (Num (itemWidth state))
              \<and> styleLookup (styles (tileImage t)) ''height'' = Some (Num (itemWidth state)))"
proof -
  from assms obtain c where c: "renderCarousel theme props state = Some c"
    by (simp add: renderCarousel_def truthy_def)
  have ts: "tilesOf (children c) = tilesOf (map (renderItem theme props state) (data props))"
    using c by (rule tilesOf_children)
  have len: "map pressItem (tilesOf (children c)) = data props"
    unfolding ts by (rule pressItem_renderItems)
  have sq: "\<forall>t \<in> set (tilesOf (children c)).
                styleLookup (styles (tileImage t)) ''width'' = Some (Num (itemWidth state))
              \<and> styleLookup (styles (tileImage t)) ''height'' = Some (Num (itemWidth state))"
    unfolding ts using tile_of_renderItem renderItem_square by blast
  from c len sq show ?thesis by (simp add: render_def)
qed

theorem tiles_rendered_square_witness:
  "0 < itemWidth \<lparr>width = 318, itemWidth = 87\<rparr>
   \<and> (\<exists>c. carousel (render \<lparr>paddingSmall = 8, colorLine = ''#ccc'', lineWidth = 1\<rparr>
        \<lparr>data = [\<lparr>key = ''a'', image_item = \<lparr>source = ''a.png'',
                                           style = Some [(''width'', Num 10)]\<rparr>\<rparr>],
           numColumns = 3, gap = Some 6, image_banner = None,
           rounded = Some True, renderContent = None\<rparr>
        \<lparr>width = 318, itemWidth = 87\<rparr>) = Some c
        \<and> map pressItem (tilesOf (children c))
            = [\<lparr>key = ''a'', image_item = \<lparr>source = ''a.png'',
                                               style = Some [(''width'', Num 10)]\<rparr>\<rparr>]
        \<and> (\<forall>t \<in> set (tilesOf (children c)).
                styleLookup (styles (tileImage t)) ''width'' = Some (Num 87)
              \<and> styleLookup (styles (tileImage t)) ''height'' = Some (Num 87)))"
  using tiles_rendered_square [of "\<lparr>width = 318, itemWidth = 87\<rparr>"
        "\<lparr>paddingSmall = 8, colorLine = ''#ccc'', lineWidth = 1\<rparr>"
        "\<lparr>data = [\<lparr>key = ''a'', image_item = \<lparr>source = ''a.png'',
                                           style = Some [(''width'', Num 10)]\<rparr>\<rparr>],
           numColumns = 3, gap = Some 6, image_banner = None,
           rounded = Some True, renderContent = None\<rparr>"]
  by simp

end
